theory Spec2Isabelle
  imports Main
begin

section \<open>The dataset download script\<close>

text \<open>
  The repository is one Python script, \<^verbatim>\<open>download_dataset.py\<close>, whose \<^verbatim>\<open>main\<close>
  reads one command-line argument, creates the output directory, asks the
  \<^verbatim>\<open>huggingface_hub\<close> client for one file and makes sure the file ends up at
  \<^verbatim>\<open>out_dir/autocodebench.jsonl\<close>.

  Everything the script does goes through library calls (\<^verbatim>\<open>os.makedirs\<close>, the import
  of the client, \<^verbatim>\<open>hf_hub_download\<close>, \<^verbatim>\<open>os.path.abspath\<close>, \<^verbatim>\<open>shutil.copy2\<close>,
  \<^verbatim>\<open>print\<close>, \<^verbatim>\<open>sys.exit\<close>). The model passes the outside world (file system and
  network) explicitly as a value of an arbitrary type \<open>'w\<close>; the library calls whose
  behaviour depends on that world are parameters, collected in an environment record.
  Each of them returns either the raised exception or its result, together with the
  world it leaves behind (a failing call may have changed the world already).
  Whether \<^verbatim>\<open>print\<close> can write a text to standard output (the stream may be unable to
  encode it), and what the interpreter reports for an exception that nothing catches,
  are parameters of the same record.
\<close>

subsection \<open>Exceptions, calls and run outcomes\<close>

type_synonym path = string

text \<open>
  The handler of the script is \<^verbatim>\<open>except Exception as e\<close>. It catches instances of
  \<^verbatim>\<open>Exception\<close> (every error class: \<^verbatim>\<open>OSError\<close>, \<^verbatim>\<open>ImportError\<close>, the client's
  HTTP errors, ...) and lets instances of \<^verbatim>\<open>BaseException\<close> outside \<^verbatim>\<open>Exception\<close>
  (\<^verbatim>\<open>KeyboardInterrupt\<close>, \<^verbatim>\<open>SystemExit\<close>) pass. An exception carries the text that
  \<^verbatim>\<open>str(e)\<close> yields.
\<close>

datatype pyexc = Exc string | BaseExc string

fun str :: "pyexc \<Rightarrow> string" where
  "str (Exc m) = m"
| "str (BaseExc m) = m"

text \<open>The keyword arguments of the one call to \<^verbatim>\<open>hf_hub_download\<close>.\<close>

record hub_args =
  repo_id :: string
  filename :: string
  repo_type :: string
  local_dir :: path
  local_dir_use_symlinks :: bool

text \<open>
  The library calls that touch the world, in the order the run makes them. The
  environment gives, besides these calls: \<open>print_stdout s\<close>, the exception that
  \<^verbatim>\<open>print(s)\<close> raises on standard output, if any (a \<^verbatim>\<open>UnicodeEncodeError\<close> when the
  stream cannot encode \<open>s\<close>; the text is encoded before anything is written, so a
  \<^verbatim>\<open>print\<close> that raises has written nothing); and \<open>stack_frames e\<close> and
  \<open>exception_line e\<close>, the stack entries and the last line (class name and message)
  of the traceback that the interpreter prints for an uncaught \<open>e\<close>.
\<close>

datatype call =
    Makedirs path bool
  | Import_hub
  | Hf_hub_download hub_args
  | Copy2 path path

record 'w env =
  makedirs :: "path \<Rightarrow> bool \<Rightarrow> 'w \<Rightarrow> (pyexc + unit) \<times> 'w"
  import_hub :: "'w \<Rightarrow> (pyexc + unit) \<times> 'w"
  hf_hub_download :: "hub_args \<Rightarrow> 'w \<Rightarrow> (pyexc + path) \<times> 'w"
  abspath :: "path \<Rightarrow> path"
  copy2 :: "path \<Rightarrow> path \<Rightarrow> 'w \<Rightarrow> (pyexc + unit) \<times> 'w"
  print_stdout :: "string \<Rightarrow> pyexc option"
  stack_frames :: "pyexc \<Rightarrow> string"
  exception_line :: "pyexc \<Rightarrow> string"

text \<open>
  A run ends with an exit code (\<^verbatim>\<open>sys.exit(n)\<close>, or \<open>0\<close> when \<^verbatim>\<open>main\<close> returns) or
  with an exception that nothing in the script catches. The two streams hold exactly
  the characters the script's own \<^verbatim>\<open>print\<close> calls wrote.
\<close>

datatype ending = Exit int | Uncaught pyexc

record 'w outcome =
  ending :: ending
  stdout :: string
  stderr :: string
  calls :: "call list"
  world :: 'w

subsection \<open>Pure helpers\<close>

text \<open>\<^verbatim>\<open>print(s, file=f)\<close> writes \<open>s\<close> and a line feed to \<open>f\<close>.\<close>

definition print_line :: "string \<Rightarrow> string" where
  "print_line s = s @ [CHR 0x0A]"

text \<open>
  \<^verbatim>\<open>os.path.join(a, b)\<close> for two components on a POSIX system (the script ships in the
  resources of a macOS package): an absolute \<open>b\<close> replaces \<open>a\<close>; otherwise \<open>b\<close> is
  appended, after a separator unless \<open>a\<close> is empty or already ends with one.
\<close>

definition path_join :: "path \<Rightarrow> path \<Rightarrow> path" where
  "path_join a b =
     (if b \<noteq> [] \<and> hd b = CHR ''/'' then b
      else if a = [] \<or> last a = CHR ''/'' then a @ b
      else a @ ''/'' @ b)"

text \<open>Line 16: \<^verbatim>\<open>out_path = os.path.join(out_dir, "autocodebench.jsonl")\<close>.\<close>

definition out_path :: "path \<Rightarrow> path" where
  "out_path out_dir = path_join out_dir ''autocodebench.jsonl''"

text \<open>Lines 19--25: the arguments of the client call.\<close>

definition download_args :: "path \<Rightarrow> hub_args" where
  "download_args out_dir =
     \<lparr>repo_id = ''tencent/AutoCodeBenchmark'',
      filename = ''autocodebench.jsonl'',
      repo_type = ''dataset'',
      local_dir = out_dir,
      local_dir_use_symlinks = False\<rparr>"

subsection \<open>The script\<close>

text \<open>
  Lines 18--30, the body of the \<^verbatim>\<open>try\<close> block: the result is the exception that left
  the block (or none), what the block printed to standard output, the calls it made
  and the world afterwards. The last statement of the block, \<^verbatim>\<open>print(out_path)\<close>, can
  raise like the calls before it.
\<close>

definition try_body ::
    "'w env \<Rightarrow> path \<Rightarrow> 'w \<Rightarrow> (pyexc + unit) \<times> string \<times> call list \<times> 'w" where
  "try_body E out_dir w =
     (case import_hub E w of
        (Inl e, w1) \<Rightarrow> (Inl e, [], [Import_hub], w1)
      | (Inr _, w1) \<Rightarrow>
          (case hf_hub_download E (download_args out_dir) w1 of
             (Inl e, w2) \<Rightarrow>
               (Inl e, [], [Import_hub, Hf_hub_download (download_args out_dir)], w2)
           | (Inr p, w2) \<Rightarrow>
               if abspath E p \<noteq> abspath E (out_path out_dir) then
                 (case copy2 E p (out_path out_dir) w2 of
                    (Inl e, w3) \<Rightarrow>
                      (Inl e, [],
                       [Import_hub, Hf_hub_download (download_args out_dir),
                        Copy2 p (out_path out_dir)], w3)
                  | (Inr _, w3) \<Rightarrow>
                      (case print_stdout E (out_path out_dir) of
                         Some e \<Rightarrow>
                           (Inl e, [],
                            [Import_hub, Hf_hub_download (download_args out_dir),
                             Copy2 p (out_path out_dir)], w3)
                       | None \<Rightarrow>
                           (Inr (), print_line (out_path out_dir),
                            [Import_hub, Hf_hub_download (download_args out_dir),
                             Copy2 p (out_path out_dir)], w3)))
               else
                 (case print_stdout E (out_path out_dir) of
                    Some e \<Rightarrow>
                      (Inl e, [],
                       [Import_hub, Hf_hub_download (download_args out_dir)], w2)
                  | None \<Rightarrow>
                      (Inr (), print_line (out_path out_dir),
                       [Import_hub, Hf_hub_download (download_args out_dir)], w2))))"

text \<open>
  Lines 10--33. \<open>argv\<close> is \<^verbatim>\<open>sys.argv\<close>, the script's own name first. The call of
  \<^verbatim>\<open>os.makedirs\<close> stands before the \<^verbatim>\<open>try\<close> block, so what it raises is caught by
  nothing. The two \<^verbatim>\<open>print\<close> calls on standard error (a stream that escapes what it
  cannot encode) and \<^verbatim>\<open>import shutil\<close> (a module of the standard library) are taken
  not to raise.
\<close>

definition main :: "'w env \<Rightarrow> string list \<Rightarrow> 'w \<Rightarrow> 'w outcome" where
  "main E argv w =
     (if length argv < 2 then
        \<lparr>ending = Exit 1, stdout = [],
         stderr = print_line ''Usage: download_dataset.py <output_dir>'',
         calls = [], world = w\<rparr>
      else
        (case makedirs E (argv ! 1) True w of
           (Inl e, w1) \<Rightarrow>
             \<lparr>ending = Uncaught e, stdout = [], stderr = [],
              calls = [Makedirs (argv ! 1) True], world = w1\<rparr>
         | (Inr _, w1) \<Rightarrow>
             (case try_body E (argv ! 1) w1 of
                (Inr _, out, cs, w2) \<Rightarrow>
                  \<lparr>ending = Exit 0, stdout = out, stderr = [],
                   calls = Makedirs (argv ! 1) True # cs, world = w2\<rparr>
              | (Inl (Exc m), out, cs, w2) \<Rightarrow>
                  \<lparr>ending = Exit 2, stdout = out, stderr = print_line (str (Exc m)),
                   calls = Makedirs (argv ! 1) True # cs, world = w2\<rparr>
              | (Inl (BaseExc m), out, cs, w2) \<Rightarrow>
                  \<lparr>ending = Uncaught (BaseExc m), stdout = out, stderr = [],
                   calls = Makedirs (argv ! 1) True # cs, world = w2\<rparr>)))"

subsection \<open>The process\<close>





subsection \<open>Test doubles\<close>

text \<open>
  A small concrete world on which the theorems below are instantiated: a disk is a list
  of files (path and content, the newest entry first). The client double stores a
  given content at a given path and returns that path; the copy double copies the
  content of the source, and raises when the source is missing.
\<close>

type_synonym disk = "(path \<times> string) list"


definition client_double :: "path \<Rightarrow> string \<Rightarrow> hub_args \<Rightarrow> disk \<Rightarrow> (pyexc + path) \<times> disk" where
  "client_double p content a d = (Inr p, (p, content) # d)"

definition copy2_double :: "path \<Rightarrow> path \<Rightarrow> disk \<Rightarrow> (pyexc + unit) \<times> disk" where
  "copy2_double src dst d =
     (case map_of d src of
        None \<Rightarrow> (Inl (Exc ''No such file or directory''), d)
      | Some c \<Rightarrow> (Inr (), (dst, c) # d))"

text \<open>
  The stack entries of the traceback of an exception raised by line 15, the only place
  from which an instance of \<^verbatim>\<open>Exception\<close> can leave the script (the quotation marks
  around the file name are left out).
\<close>

definition frames_double :: "pyexc \<Rightarrow> string" where
  "frames_double e =
     print_line ''  File download_dataset.py, line 36, in <module>''
     @ print_line ''    main()''
     @ print_line ''  File download_dataset.py, line 15, in main''
     @ print_line ''    os.makedirs(out_dir, exist_ok=True)''
     @ print_line ''  File <frozen os>, line 225, in makedirs''"

definition env_double :: "path \<Rightarrow> string \<Rightarrow> disk env" where
  "env_double p content =
     \<lparr>makedirs = (\<lambda>dir exist_ok d. (Inr (), d)),
      import_hub = (\<lambda>d. (Inr (), d)),
      hf_hub_download = client_double p content,
      abspath = (\<lambda>q. q),
      copy2 = copy2_double,
      print_stdout = (\<lambda>s. None),
      stack_frames = frames_double,
      exception_line = (\<lambda>e. ''OSError: '' @ str e)\<rparr>"

text \<open>
  Doubles in which one library call raises: the directory creation, the import of the
  client, the client itself, and the copy (after a client that did deliver the file
  at \<open>p\<close>).
\<close>

definition env_makedirs_raises :: "string \<Rightarrow> disk env" where
  "env_makedirs_raises m =
     (env_double [] [])\<lparr>makedirs := (\<lambda>dir exist_ok d. (Inl (Exc m), d))\<rparr>"


definition env_import_raises :: "string \<Rightarrow> disk env" where
  "env_import_raises m = (env_double [] [])\<lparr>import_hub := (\<lambda>d. (Inl (Exc m), d))\<rparr>"

definition env_client_raises :: "string \<Rightarrow> disk env" where
  "env_client_raises m = (env_double [] [])\<lparr>hf_hub_download := (\<lambda>a d. (Inl (Exc m), d))\<rparr>"

definition env_copy_raises :: "path \<Rightarrow> string \<Rightarrow> string \<Rightarrow> disk env" where
  "env_copy_raises p content m =
     (env_double p content)\<lparr>copy2 := (\<lambda>src dst d. (Inl (Exc m), d))\<rparr>"



text \<open>
  A second world, with directories: \<open>dir_prefixes [] p\<close> lists the directories on the
  way to \<open>p\<close> and \<open>p\<close> itself (\<open>[''/tmp'', ''/tmp/a'']\<close> for \<open>''/tmp/a''\<close>). The
  directory-creation double raises on the empty path,
  leaves an existing directory alone when \<open>exist_ok\<close> holds, and otherwise creates the
  directory with its missing parents. The client double raises when its local
  directory does not exist in the world it is called in; otherwise it stores, at the
  file name inside the local directory, a content made of the repository kind, the
  identifier and the symlink flag it was asked for, and returns that path.
\<close>

record fs =
  dirs :: "path list"
  files :: "(path \<times> string) list"

fun dir_prefixes :: "path \<Rightarrow> path \<Rightarrow> path list" where
  "dir_prefixes acc [] = [acc]"
| "dir_prefixes acc (c # cs) =
     (if c = CHR ''/'' \<and> acc \<noteq> [] then acc # dir_prefixes (acc @ [c]) cs
      else dir_prefixes (acc @ [c]) cs)"

definition isdir_fs :: "fs \<Rightarrow> path \<Rightarrow> bool" where
  "isdir_fs u p = (p \<in> set (dirs u))"

definition makedirs_fs :: "path \<Rightarrow> bool \<Rightarrow> fs \<Rightarrow> (pyexc + unit) \<times> fs" where
  "makedirs_fs p exist_ok u =
     (if p \<in> set (dirs u) then
        (if exist_ok then (Inr (), u) else (Inl (Exc ''[Errno 17] File exists''), u))
      else if p = [] then (Inl (Exc ''[Errno 2] No such file or directory''), u)
      else (Inr (), u\<lparr>dirs := dir_prefixes [] p @ dirs u\<rparr>))"

definition client_fs :: "hub_args \<Rightarrow> fs \<Rightarrow> (pyexc + path) \<times> fs" where
  "client_fs a u =
     (if local_dir a \<in> set (dirs u) then
        (Inr (path_join (local_dir a) (filename a)),
         u\<lparr>files := (path_join (local_dir a) (filename a),
                      repo_type a @ '':'' @ repo_id a
                        @ (if local_dir_use_symlinks a then '':symlink'' else '':copy''))
                      # files u\<rparr>)
      else (Inl (Exc ''[Errno 2] No such file or directory''), u))"

definition copy2_fs :: "path \<Rightarrow> path \<Rightarrow> fs \<Rightarrow> (pyexc + unit) \<times> fs" where
  "copy2_fs src dst u =
     (case map_of (files u) src of
        None \<Rightarrow> (Inl (Exc ''[Errno 2] No such file or directory''), u)
      | Some c \<Rightarrow> (Inr (), u\<lparr>files := (dst, c) # files u\<rparr>))"

definition env_fs :: "fs env" where
  "env_fs =
     \<lparr>makedirs = makedirs_fs,
      import_hub = (\<lambda>u. (Inr (), u)),
      hf_hub_download = client_fs,
      abspath = (\<lambda>q. q),
      copy2 = copy2_fs,
      print_stdout = (\<lambda>s. None),
      stack_frames = frames_double,
      exception_line = (\<lambda>e. ''OSError: '' @ str e)\<rparr>"

subsection \<open>Observing the calls of a run\<close>

text \<open>The calls of the external artifact-store client among the calls of a run.\<close>

fun is_download :: "call \<Rightarrow> bool" where
  "is_download (Hf_hub_download a) = True"
| "is_download c = False"

section \<open>Properties\<close>

subsection \<open>Auxiliary facts\<close>

text \<open>Once the directory creation has returned, the run is decided by the \<^verbatim>\<open>try\<close> block.\<close>

lemma main_after_makedirs:
  assumes "2 \<le> length argv" and "makedirs E (argv ! 1) True w = (Inr x, w1)"
  shows "main E argv w =
     (case try_body E (argv ! 1) w1 of
        (Inr _, out, cs, w2) \<Rightarrow>
          \<lparr>ending = Exit 0, stdout = out, stderr = [],
           calls = Makedirs (argv ! 1) True # cs, world = w2\<rparr>
      | (Inl (Exc m), out, cs, w2) \<Rightarrow>
          \<lparr>ending = Exit 2, stdout = out, stderr = print_line m,
           calls = Makedirs (argv ! 1) True # cs, world = w2\<rparr>
      | (Inl (BaseExc m), out, cs, w2) \<Rightarrow>
          \<lparr>ending = Uncaught (BaseExc m), stdout = out, stderr = [],
           calls = Makedirs (argv ! 1) True # cs, world = w2\<rparr>)"
  using assms by (simp add: main_def split: prod.splits sum.splits pyexc.splits)


text \<open>The \<^verbatim>\<open>try\<close> block, statement by statement.\<close>

lemma try_body_import_raises:
  "import_hub E w1 = (Inl e, w2) \<Longrightarrow> try_body E d w1 = (Inl e, [], [Import_hub], w2)"
  by (simp add: try_body_def)

lemma try_body_client_raises:
  "import_hub E w1 = (Inr y, w2) \<Longrightarrow> hf_hub_download E (download_args d) w2 = (Inl e, w3)
   \<Longrightarrow> try_body E d w1 = (Inl e, [], [Import_hub, Hf_hub_download (download_args d)], w3)"
  by (simp add: try_body_def)

lemma try_body_copy_raises:
  "import_hub E w1 = (Inr y, w2) \<Longrightarrow> hf_hub_download E (download_args d) w2 = (Inr p, w3)
   \<Longrightarrow> abspath E p \<noteq> abspath E (out_path d)
   \<Longrightarrow> copy2 E p (out_path d) w3 = (Inl e, w4)
   \<Longrightarrow> try_body E d w1
       = (Inl e, [], [Import_hub, Hf_hub_download (download_args d), Copy2 p (out_path d)], w4)"
  by (simp add: try_body_def)

lemma try_body_no_copy:
  "import_hub E w1 = (Inr y, w2) \<Longrightarrow> hf_hub_download E (download_args d) w2 = (Inr p, w3)
   \<Longrightarrow> abspath E p = abspath E (out_path d)
   \<Longrightarrow> try_body E d w1
       = (case print_stdout E (out_path d) of
            Some e \<Rightarrow> (Inl e, [], [Import_hub, Hf_hub_download (download_args d)], w3)
          | None \<Rightarrow> (Inr (), print_line (out_path d),
                     [Import_hub, Hf_hub_download (download_args d)], w3))"
  by (simp add: try_body_def)

lemma try_body_copied:
  "import_hub E w1 = (Inr y, w2) \<Longrightarrow> hf_hub_download E (download_args d) w2 = (Inr p, w3)
   \<Longrightarrow> abspath E p \<noteq> abspath E (out_path d)
   \<Longrightarrow> copy2 E p (out_path d) w3 = (Inr z, w4)
   \<Longrightarrow> try_body E d w1
       = (case print_stdout E (out_path d) of
            Some e \<Rightarrow> (Inl e, [], [Import_hub, Hf_hub_download (download_args d),
                                   Copy2 p (out_path d)], w4)
          | None \<Rightarrow> (Inr (), print_line (out_path d),
                     [Import_hub, Hf_hub_download (download_args d),
                      Copy2 p (out_path d)], w4))"
  by (simp add: try_body_def)







text \<open>
  A run that reaches the client call: its calls, its final world and its ending, from
  what the client and the copy really return.
\<close>

lemma run_after_client:
  assumes "2 \<le> length argv"
    and "makedirs E (argv ! 1) True w = (Inr x1, w1)"
    and "import_hub E w1 = (Inr x2, w2)"
    and dl: "hf_hub_download E (download_args (argv ! 1)) w2 = (r, w3)"
  shows "calls (main E argv w)
           = [Makedirs (argv ! 1) True, Import_hub, Hf_hub_download (download_args (argv ! 1))]
             @ (case r of
                  Inl e \<Rightarrow> []
                | Inr p \<Rightarrow> if abspath E p \<noteq> abspath E (out_path (argv ! 1))
                           then [Copy2 p (out_path (argv ! 1))] else [])"
    and "world (main E argv w)
           = (case r of
                Inl e \<Rightarrow> w3
              | Inr p \<Rightarrow> if abspath E p \<noteq> abspath E (out_path (argv ! 1))
                         then snd (copy2 E p (out_path (argv ! 1)) w3) else w3)"
    and "r = Inl (Exc m) \<Longrightarrow> ending (main E argv w) = Exit 2
           \<and> stderr (main E argv w) = print_line m \<and> stdout (main E argv w) = []"
    and "r = Inl (BaseExc m) \<Longrightarrow> ending (main E argv w) = Uncaught (BaseExc m)
           \<and> stderr (main E argv w) = [] \<and> stdout (main E argv w) = []"
proof -
  have "calls (main E argv w)
           = [Makedirs (argv ! 1) True, Import_hub, Hf_hub_download (download_args (argv ! 1))]
             @ (case r of
                  Inl e \<Rightarrow> []
                | Inr p \<Rightarrow> if abspath E p \<noteq> abspath E (out_path (argv ! 1))
                           then [Copy2 p (out_path (argv ! 1))] else [])
      \<and> world (main E argv w)
           = (case r of
                Inl e \<Rightarrow> w3
              | Inr p \<Rightarrow> if abspath E p \<noteq> abspath E (out_path (argv ! 1))
                         then snd (copy2 E p (out_path (argv ! 1)) w3) else w3)"
  proof (cases r)
    case (Inl e)
    with assms show ?thesis
      by (cases e) (simp_all add: main_after_makedirs try_body_client_raises)
  next
    case (Inr p)
    show ?thesis
    proof (cases "abspath E p = abspath E (out_path (argv ! 1))")
      case True
      with assms Inr show ?thesis
        by (cases "print_stdout E (out_path (argv ! 1))")
           (auto simp add: main_after_makedirs try_body_no_copy split: pyexc.splits)
    next
      case False
      obtain r4 w4 where cp: "copy2 E p (out_path (argv ! 1)) w3 = (r4, w4)"
        by (cases "copy2 E p (out_path (argv ! 1)) w3")
      show ?thesis
      proof (cases r4)
        case (Inl e)
        with assms Inr False cp show ?thesis
          by (cases e) (simp_all add: main_after_makedirs try_body_copy_raises)
      next
        case r: (Inr z)
        with assms Inr False cp show ?thesis
          by (cases "print_stdout E (out_path (argv ! 1))")
             (auto simp add: main_after_makedirs try_body_copied split: pyexc.splits)
      qed
    qed
  qed
  then show "calls (main E argv w)
           = [Makedirs (argv ! 1) True, Import_hub, Hf_hub_download (download_args (argv ! 1))]
             @ (case r of
                  Inl e \<Rightarrow> []
                | Inr p \<Rightarrow> if abspath E p \<noteq> abspath E (out_path (argv ! 1))
                           then [Copy2 p (out_path (argv ! 1))] else [])"
    and "world (main E argv w)
           = (case r of
                Inl e \<Rightarrow> w3
              | Inr p \<Rightarrow> if abspath E p \<noteq> abspath E (out_path (argv ! 1))
                         then snd (copy2 E p (out_path (argv ! 1)) w3) else w3)"
    by simp_all
  show "r = Inl (Exc m) \<Longrightarrow> ending (main E argv w) = Exit 2
           \<and> stderr (main E argv w) = print_line m \<and> stdout (main E argv w) = []"
    using assms by (simp add: main_after_makedirs try_body_client_raises)
  show "r = Inl (BaseExc m) \<Longrightarrow> ending (main E argv w) = Uncaught (BaseExc m)
           \<and> stderr (main E argv w) = [] \<and> stdout (main E argv w) = []"
    using assms by (simp add: main_after_makedirs try_body_client_raises)
qed

text \<open>
  The directory-creation double: the path it was asked for is among the directories
  afterwards, and an existing directory is left alone.
\<close>

lemma dir_prefixes_last: "acc @ p \<in> set (dir_prefixes acc p)"
proof (induction p arbitrary: acc)
  case Nil
  show ?case by simp
next
  case (Cons a p)
  from Cons [of "acc @ [a]"] show ?case by auto
qed

lemma makedirs_fs_creates:
  "makedirs_fs p True u = (Inr x, u') \<Longrightarrow> isdir_fs u' p"
  using dir_prefixes_last [of "[]" p]
  by (auto simp add: makedirs_fs_def isdir_fs_def split: if_splits)

lemma makedirs_fs_existing:
  "isdir_fs u p \<Longrightarrow> makedirs_fs p True u = (Inr (), u)"
  by (simp add: makedirs_fs_def isdir_fs_def)

subsection \<open>The claims\<close>






text \<open>
  C3. When the external client call raises an error, or the client returns and the
  copy to the canonical path raises an error (an error being an instance of
  \<^verbatim>\<open>Exception\<close>, which is what the handler catches), the process exits with code 2,
  standard error holds \<^verbatim>\<open>str(e)\<close> followed by a line feed, and nothing is written to
  standard output.
\<close>

theorem transfer_error_exit_2:
  assumes "2 \<le> length argv"
    and "makedirs E (argv ! 1) True w = (Inr x1, w1)"
    and "import_hub E w1 = (Inr x2, w2)"
    and "hf_hub_download E (download_args (argv ! 1)) w2 = (Inl (Exc m), w3)
         \<or> (\<exists>p u. hf_hub_download E (download_args (argv ! 1)) w2 = (Inr p, u)
                \<and> abspath E p \<noteq> abspath E (out_path (argv ! 1))
                \<and> copy2 E p (out_path (argv ! 1)) u = (Inl (Exc m), w3))"
  shows "ending (main E argv w) = Exit 2
       \<and> stderr (main E argv w) = print_line m
       \<and> stdout (main E argv w) = []"
  using assms by (auto simp add: main_after_makedirs try_body_def)

text \<open>
  C3 on two runs of the doubles: a client that raises, and a copy that raises after
  the client delivered at a path that is not the canonical one.
\<close>

theorem transfer_error_exit_2_witness:
  "ending (main (env_client_raises ''404 Client Error: Not Found'')
       [''download_dataset.py'', ''/tmp/ds''] []) = Exit 2
   \<and> stderr (main (env_client_raises ''404 Client Error: Not Found'')
       [''download_dataset.py'', ''/tmp/ds''] []) = ''404 Client Error: Not Found'' @ [CHR 0x0A]
   \<and> stdout (main (env_client_raises ''404 Client Error: Not Found'')
       [''download_dataset.py'', ''/tmp/ds''] []) = []
   \<and> ending (main (env_copy_raises ''/tmp/ds/blobs/autocodebench.jsonl'' ''{}''
         ''[Errno 13] Permission denied'') [''download_dataset.py'', ''/tmp/ds''] []) = Exit 2
   \<and> stderr (main (env_copy_raises ''/tmp/ds/blobs/autocodebench.jsonl'' ''{}''
         ''[Errno 13] Permission denied'') [''download_dataset.py'', ''/tmp/ds''] [])
       = ''[Errno 13] Permission denied'' @ [CHR 0x0A]"
proof -
  let ?argv = "[''download_dataset.py'', ''/tmp/ds'']"
  let ?E = "env_client_raises ''404 Client Error: Not Found''"
  let ?p = "''/tmp/ds/blobs/autocodebench.jsonl''"
  let ?F = "env_copy_raises ?p ''{}'' ''[Errno 13] Permission denied''"
  have a: "2 \<le> length ?argv" by simp
  have b: "makedirs ?E (?argv ! 1) True [] = (Inr (), [])"
    and b': "makedirs ?F (?argv ! 1) True [] = (Inr (), [])"
    by (simp_all add: env_client_raises_def env_copy_raises_def env_double_def)
  have c: "import_hub ?E [] = (Inr (), [])" and c': "import_hub ?F [] = (Inr (), [])"
    by (simp_all add: env_client_raises_def env_copy_raises_def env_double_def)
  have d: "hf_hub_download ?E (download_args (?argv ! 1)) []
             = (Inl (Exc ''404 Client Error: Not Found''), [])
           \<or> (\<exists>p u. hf_hub_download ?E (download_args (?argv ! 1)) [] = (Inr p, u)
                \<and> abspath ?E p \<noteq> abspath ?E (out_path (?argv ! 1))
                \<and> copy2 ?E p (out_path (?argv ! 1)) u
                    = (Inl (Exc ''404 Client Error: Not Found''), []))"
    by (simp add: env_client_raises_def env_double_def)
  have "hf_hub_download ?F (download_args (?argv ! 1)) [] = (Inr ?p, [(?p, ''{}'')])
        \<and> abspath ?F ?p \<noteq> abspath ?F (out_path (?argv ! 1))
        \<and> copy2 ?F ?p (out_path (?argv ! 1)) [(?p, ''{}'')]
            = (Inl (Exc ''[Errno 13] Permission denied''), [(?p, ''{}'')])"
    by (simp add: env_copy_raises_def env_double_def client_double_def out_path_def
          path_join_def)
  then have d': "hf_hub_download ?F (download_args (?argv ! 1)) []
             = (Inl (Exc ''[Errno 13] Permission denied''), [(?p, ''{}'')])
           \<or> (\<exists>p u. hf_hub_download ?F (download_args (?argv ! 1)) [] = (Inr p, u)
                \<and> abspath ?F p \<noteq> abspath ?F (out_path (?argv ! 1))
                \<and> copy2 ?F p (out_path (?argv ! 1)) u
                    = (Inl (Exc ''[Errno 13] Permission denied''), [(?p, ''{}'')]))"
    by blast
  show ?thesis
    using transfer_error_exit_2 [OF a b c d] transfer_error_exit_2 [OF a b' c' d']
    by (simp add: print_line_def)
qed

text \<open>
  C4. An invocation without an \<open>output_dir\<close> argument (\<^verbatim>\<open>sys.argv\<close> holds at most the
  script's name) exits with code 1 and writes the usage message to standard error; it
  makes no library call at all (no directory creation, no import of the client, no
  download, no copy), writes nothing to standard output and leaves the world as it
  was.
\<close>

theorem usage_error_without_argument:
  assumes "length argv < 2"
  shows "ending (main E argv w) = Exit 1
       \<and> stderr (main E argv w) = print_line ''Usage: download_dataset.py <output_dir>''
       \<and> stdout (main E argv w) = []
       \<and> calls (main E argv w) = []
       \<and> world (main E argv w) = w"
  using assms by (simp add: main_def)

text \<open>
  C4 on the invocation that passes the script's name only.
\<close>

theorem usage_error_without_argument_witness:
  "length [''download_dataset.py''] < 2
   \<and> ending (main (env_double ''/tmp/ds/autocodebench.jsonl'' ''{}'') [''download_dataset.py''] []) = Exit 1
   \<and> stderr (main (env_double ''/tmp/ds/autocodebench.jsonl'' ''{}'') [''download_dataset.py''] [])
       = print_line ''Usage: download_dataset.py <output_dir>''
   \<and> calls (main (env_double ''/tmp/ds/autocodebench.jsonl'' ''{}'') [''download_dataset.py''] []) = []"
  using usage_error_without_argument
          [of "[''download_dataset.py'']" "env_double ''/tmp/ds/autocodebench.jsonl'' ''{}''" "[]"]
  by simp

text \<open>
  C5. For every supplied \<open>output_dir\<close> the run starts with
  \<^verbatim>\<open>os.makedirs(output_dir, exist_ok=True)\<close>, the library call that creates the whole
  path with its missing parents, and everything else happens in the world that call
  leaves behind. The library contracts are: a call that returns has made its path an
  existing directory (\<open>isdir\<close>, the library's test; a directory exists only inside
  existing parents), an existing directory is left alone without an error, and the
  import of the client removes no directory. Then: when the creation raises, the run
  ends there, in the world the call left, with nothing else called. When it returns,
  the directory exists; the import runs in that world; and the client is applied to the
  world the import left, in which the directory still exists: the final world is the one
  the client returned (after the copy, when one is made). When the directory exists
  already, the creation step does not fail and the run goes on to the \<^verbatim>\<open>try\<close> block.
\<close>

theorem directory_created_before_transfer:
  fixes isdir :: "'w \<Rightarrow> path \<Rightarrow> bool"
  assumes len: "2 \<le> length argv"
    and created: "\<forall>p u x u'. makedirs E p True u = (Inr x, u') \<longrightarrow> isdir u' p"
    and existing: "\<forall>p u. isdir u p \<longrightarrow> makedirs E p True u = (Inr (), u)"
    and kept: "\<forall>u r u' q. import_hub E u = (r, u') \<and> isdir u q \<longrightarrow> isdir u' q"
  shows "(\<forall>e w1. makedirs E (argv ! 1) True w = (Inl e, w1) \<longrightarrow>
            ending (main E argv w) = Uncaught e
            \<and> world (main E argv w) = w1
            \<and> calls (main E argv w) = [Makedirs (argv ! 1) True])
       \<and> (\<forall>x w1. makedirs E (argv ! 1) True w = (Inr x, w1) \<longrightarrow>
            isdir w1 (argv ! 1)
            \<and> (\<forall>e w2. import_hub E w1 = (Inl e, w2) \<longrightarrow>
                  world (main E argv w) = w2
                  \<and> calls (main E argv w) = [Makedirs (argv ! 1) True, Import_hub])
            \<and> (\<forall>y w2. import_hub E w1 = (Inr y, w2) \<longrightarrow>
                  isdir w2 (argv ! 1)
                  \<and> (\<forall>r w3. hf_hub_download E (download_args (argv ! 1)) w2 = (r, w3) \<longrightarrow>
                        world (main E argv w)
                          = (case r of
                               Inl e \<Rightarrow> w3
                             | Inr p \<Rightarrow>
                                 if abspath E p \<noteq> abspath E (out_path (argv ! 1))
                                 then snd (copy2 E p (out_path (argv ! 1)) w3) else w3)
                        \<and> take 3 (calls (main E argv w))
                          = [Makedirs (argv ! 1) True, Import_hub,
                             Hf_hub_download (download_args (argv ! 1))])))
       \<and> (isdir w (argv ! 1) \<longrightarrow>
            makedirs E (argv ! 1) True w = (Inr (), w)
            \<and> Import_hub \<in> set (calls (main E argv w)))"
proof -
  have A: "ending (main E argv w) = Uncaught e \<and> world (main E argv w) = w1
           \<and> calls (main E argv w) = [Makedirs (argv ! 1) True]"
    if "makedirs E (argv ! 1) True w = (Inl e, w1)" for e w1
    using that len by (simp add: main_def)
  have B1: "isdir w1 (argv ! 1)"
    if "makedirs E (argv ! 1) True w = (Inr x, w1)" for x w1
    using created that by blast
  have B2: "world (main E argv w) = w2
            \<and> calls (main E argv w) = [Makedirs (argv ! 1) True, Import_hub]"
    if "makedirs E (argv ! 1) True w = (Inr x, w1)" and "import_hub E w1 = (Inl e, w2)"
    for x w1 e w2
    using that len by (cases e) (simp_all add: main_after_makedirs try_body_import_raises)
  have B3: "isdir w2 (argv ! 1)"
    if "makedirs E (argv ! 1) True w = (Inr x, w1)" and "import_hub E w1 = (Inr y, w2)"
    for x w1 y w2
    using B1 [OF that(1)] kept that(2) by blast
  have B4: "world (main E argv w)
              = (case r of
                   Inl e \<Rightarrow> w3
                 | Inr p \<Rightarrow>
                     if abspath E p \<noteq> abspath E (out_path (argv ! 1))
                     then snd (copy2 E p (out_path (argv ! 1)) w3) else w3)
            \<and> take 3 (calls (main E argv w))
              = [Makedirs (argv ! 1) True, Import_hub,
                 Hf_hub_download (download_args (argv ! 1))]"
    if "makedirs E (argv ! 1) True w = (Inr x, w1)" and "import_hub E w1 = (Inr y, w2)"
      and "hf_hub_download E (download_args (argv ! 1)) w2 = (r, w3)"
    for x w1 y w2 r w3
    using run_after_client(1,2) [OF len that] by simp
  have C: "makedirs E (argv ! 1) True w = (Inr (), w)
           \<and> Import_hub \<in> set (calls (main E argv w))"
    if "isdir w (argv ! 1)"
  proof -
    from existing that have mk: "makedirs E (argv ! 1) True w = (Inr (), w)" by blast
    obtain r2 w2 where imp: "import_hub E w = (r2, w2)" by (cases "import_hub E w")
    have "Import_hub \<in> set (calls (main E argv w))"
    proof (cases r2)
      case (Inl e)
      with B2 [OF mk] imp show ?thesis by simp
    next
      case (Inr y)
      obtain r w3 where "hf_hub_download E (download_args (argv ! 1)) w2 = (r, w3)"
        by (cases "hf_hub_download E (download_args (argv ! 1)) w2")
      from run_after_client(1) [OF len mk imp [unfolded Inr] this] show ?thesis by simp
    qed
    with mk show ?thesis by simp
  qed
  from A B1 B2 B3 B4 C show ?thesis by blast
qed

text \<open>
  C5 on two runs of the doubles with directories: from an empty file system the
  nested path \<^verbatim>\<open>/tmp/a/b/c\<close> is created with its parents before the client, which
  needs the directory, stores its file; and on the existing directory the creation
  returns and the run goes on.
\<close>

theorem directory_created_before_transfer_witness:
  "makedirs env_fs ''/tmp/a/b/c'' True \<lparr>dirs = [], files = []\<rparr>
     = (Inr (), \<lparr>dirs = [''/tmp'', ''/tmp/a'', ''/tmp/a/b'', ''/tmp/a/b/c''], files = []\<rparr>)
   \<and> isdir_fs \<lparr>dirs = [''/tmp'', ''/tmp/a'', ''/tmp/a/b'', ''/tmp/a/b/c''], files = []\<rparr>
        ''/tmp/a/b/c''
   \<and> world (main env_fs [''download_dataset.py'', ''/tmp/a/b/c''] \<lparr>dirs = [], files = []\<rparr>)
     = \<lparr>dirs = [''/tmp'', ''/tmp/a'', ''/tmp/a/b'', ''/tmp/a/b/c''],
        files = [(''/tmp/a/b/c/autocodebench.jsonl'', ''dataset:tencent/AutoCodeBenchmark:copy'')]\<rparr>
   \<and> makedirs env_fs ''/tmp/a/b/c'' True
        \<lparr>dirs = [''/tmp'', ''/tmp/a'', ''/tmp/a/b'', ''/tmp/a/b/c''], files = []\<rparr>
     = (Inr (), \<lparr>dirs = [''/tmp'', ''/tmp/a'', ''/tmp/a/b'', ''/tmp/a/b/c''], files = []\<rparr>)
   \<and> Import_hub \<in> set (calls (main env_fs [''download_dataset.py'', ''/tmp/a/b/c'']
        \<lparr>dirs = [''/tmp'', ''/tmp/a'', ''/tmp/a/b'', ''/tmp/a/b/c''], files = []\<rparr>))"
proof -
  let ?argv = "[''download_dataset.py'', ''/tmp/a/b/c'']"
  let ?w0 = "\<lparr>dirs = [], files = []\<rparr>"
  let ?w1 = "\<lparr>dirs = [''/tmp'', ''/tmp/a'', ''/tmp/a/b'', ''/tmp/a/b/c''], files = []\<rparr>"
  let ?w3 = "\<lparr>dirs = [''/tmp'', ''/tmp/a'', ''/tmp/a/b'', ''/tmp/a/b/c''],
        files = [(''/tmp/a/b/c/autocodebench.jsonl'', ''dataset:tencent/AutoCodeBenchmark:copy'')]\<rparr>"
  have len: "2 \<le> length ?argv" by simp
  have created: "\<forall>p u x u'. makedirs env_fs p True u = (Inr x, u') \<longrightarrow> isdir_fs u' p"
    using makedirs_fs_creates by (simp add: env_fs_def)
  have existing: "\<forall>p u. isdir_fs u p \<longrightarrow> makedirs env_fs p True u = (Inr (), u)"
    using makedirs_fs_existing by (simp add: env_fs_def)
  have kept: "\<forall>u r u' q. import_hub env_fs u = (r, u') \<and> isdir_fs u q \<longrightarrow> isdir_fs u' q"
    by (auto simp add: env_fs_def)
  note T = directory_created_before_transfer
             [where isdir = isdir_fs and E = env_fs and argv = ?argv, OF len created existing kept]
  have mk: "makedirs env_fs (?argv ! 1) True ?w0 = (Inr (), ?w1)"
    by (simp add: env_fs_def makedirs_fs_def)
  have imp: "import_hub env_fs ?w1 = (Inr (), ?w1)"
    by (simp add: env_fs_def)
  have dl: "hf_hub_download env_fs (download_args (?argv ! 1)) ?w1
              = (Inr ''/tmp/a/b/c/autocodebench.jsonl'', ?w3)"
    by (simp add: env_fs_def client_fs_def download_args_def path_join_def)
  from T [where w = ?w0] mk have one: "isdir_fs ?w1 (?argv ! 1)" by blast
  from T [where w = ?w0] mk imp dl have
    "world (main env_fs ?argv ?w0)
       = (case (Inr ''/tmp/a/b/c/autocodebench.jsonl'' :: pyexc + path) of
            Inl e \<Rightarrow> ?w3
          | Inr p \<Rightarrow>
              if abspath env_fs p \<noteq> abspath env_fs (out_path (?argv ! 1))
              then snd (copy2 env_fs p (out_path (?argv ! 1)) ?w3) else ?w3)"
    by blast
  then have two: "world (main env_fs ?argv ?w0) = ?w3"
    by (simp add: env_fs_def out_path_def path_join_def)
  from one have "isdir_fs ?w1 (?argv ! 1)" .
  with T [where w = ?w1] have three: "makedirs env_fs (?argv ! 1) True ?w1 = (Inr (), ?w1)
        \<and> Import_hub \<in> set (calls (main env_fs ?argv ?w1))"
    by blast
  from mk one two three show ?thesis by simp
qed






text \<open>
  C8. On every run that reaches the transfer step (an argument is present, the
  directory creation and the import of the client returned), the external client is
  called exactly once, with the constant repository identifier
  \<^verbatim>\<open>tencent/AutoCodeBenchmark\<close>, the constant file name \<^verbatim>\<open>autocodebench.jsonl\<close>,
  repository kind \<^verbatim>\<open>dataset\<close>, the supplied \<open>output_dir\<close> as local directory, and
  symlinks disabled: whatever that one application of the client returns in the world
  the import left decides the run. When it raises, the run ends in the world it left,
  with exit code 2 and its message on standard error (or, for an exception outside
  \<^verbatim>\<open>Exception\<close>, uncaught); when it returns a path, the final world is the world it
  left, after the copy when one is made. The trace of the run holds that one call of
  the client and no other.
\<close>

theorem client_called_once:
  assumes "2 \<le> length argv"
    and "makedirs E (argv ! 1) True w = (Inr x1, w1)"
    and "import_hub E w1 = (Inr x2, w2)"
    and "hf_hub_download E
           \<lparr>repo_id = ''tencent/AutoCodeBenchmark'',
            filename = ''autocodebench.jsonl'',
            repo_type = ''dataset'',
            local_dir = argv ! 1,
            local_dir_use_symlinks = False\<rparr> w2 = (r, w3)"
  shows "filter is_download (calls (main E argv w))
           = [Hf_hub_download
                \<lparr>repo_id = ''tencent/AutoCodeBenchmark'',
                 filename = ''autocodebench.jsonl'',
                 repo_type = ''dataset'',
                 local_dir = argv ! 1,
                 local_dir_use_symlinks = False\<rparr>]
       \<and> (case r of
             Inl e \<Rightarrow>
               world (main E argv w) = w3
               \<and> ending (main E argv w)
                   = (case e of Exc m \<Rightarrow> Exit 2 | BaseExc m \<Rightarrow> Uncaught e)
               \<and> stderr (main E argv w)
                   = (case e of Exc m \<Rightarrow> print_line m | BaseExc m \<Rightarrow> [])
           | Inr p \<Rightarrow>
               world (main E argv w)
                 = (if abspath E p \<noteq> abspath E (out_path (argv ! 1))
                    then snd (copy2 E p (out_path (argv ! 1)) w3) else w3))"
proof -
  from assms(4) have dl: "hf_hub_download E (download_args (argv ! 1)) w2 = (r, w3)"
    by (simp add: download_args_def)
  note run = run_after_client [OF assms(1-3) dl]
  show ?thesis
  proof (cases r)
    case (Inl e)
    with run(1,2) run(3) [of "str e"] run(4) [of "str e"] show ?thesis
      by (cases e) (simp_all add: download_args_def)
  next
    case (Inr p)
    with run(1,2) show ?thesis by (simp add: download_args_def)
  qed
qed

text \<open>
  C8 on a run of the doubles with directories: the file that the client double
  stores is named and filled from the arguments it was called with, and it is stored
  once.
\<close>

theorem client_called_once_witness:
  "filter is_download (calls (main env_fs [''download_dataset.py'', ''/tmp/ds'']
       \<lparr>dirs = [], files = []\<rparr>))
     = [Hf_hub_download
          \<lparr>repo_id = ''tencent/AutoCodeBenchmark'', filename = ''autocodebench.jsonl'',
           repo_type = ''dataset'', local_dir = ''/tmp/ds'', local_dir_use_symlinks = False\<rparr>]
   \<and> world (main env_fs [''download_dataset.py'', ''/tmp/ds''] \<lparr>dirs = [], files = []\<rparr>)
     = \<lparr>dirs = [''/tmp'', ''/tmp/ds''],
        files = [(''/tmp/ds/autocodebench.jsonl'', ''dataset:tencent/AutoCodeBenchmark:copy'')]\<rparr>"
proof -
  let ?argv = "[''download_dataset.py'', ''/tmp/ds'']"
  let ?w1 = "\<lparr>dirs = [''/tmp'', ''/tmp/ds''], files = []\<rparr>"
  have a: "2 \<le> length ?argv" by simp
  have b: "makedirs env_fs (?argv ! 1) True \<lparr>dirs = [], files = []\<rparr> = (Inr (), ?w1)"
    by (simp add: env_fs_def makedirs_fs_def)
  have c: "import_hub env_fs ?w1 = (Inr (), ?w1)"
    by (simp add: env_fs_def)
  have d: "hf_hub_download env_fs
             \<lparr>repo_id = ''tencent/AutoCodeBenchmark'', filename = ''autocodebench.jsonl'',
              repo_type = ''dataset'', local_dir = ?argv ! 1, local_dir_use_symlinks = False\<rparr>
             ?w1
           = (Inr ''/tmp/ds/autocodebench.jsonl'',
              \<lparr>dirs = [''/tmp'', ''/tmp/ds''],
               files = [(''/tmp/ds/autocodebench.jsonl'',
                         ''dataset:tencent/AutoCodeBenchmark:copy'')]\<rparr>)"
    by (simp add: env_fs_def client_fs_def path_join_def)
  show ?thesis
    using client_called_once [OF a b c d]
    by (simp add: env_fs_def out_path_def path_join_def)
qed

text \<open>
  C9. An invocation whose \<open>output_dir\<close> argument is the empty string is not a usage
  error (the exit code is not 1): the run makes the directory-creation call with the
  empty string as its first call, and when that call raises, the exception leaves the
  script uncaught: no exit code 2, nothing printed to either stream, no further
  call.
\<close>

theorem empty_output_dir_reaches_makedirs:
  assumes "2 \<le> length argv" and "argv ! 1 = ''''"
  shows "ending (main E argv w) \<noteq> Exit 1
       \<and> (\<exists>cs. calls (main E argv w) = Makedirs '''' True # cs)
       \<and> (\<forall>e w1. makedirs E '''' True w = (Inl e, w1) \<longrightarrow>
             ending (main E argv w) = Uncaught e
             \<and> ending (main E argv w) \<noteq> Exit 2
             \<and> stdout (main E argv w) = []
             \<and> stderr (main E argv w) = []
             \<and> calls (main E argv w) = [Makedirs '''' True]
             \<and> world (main E argv w) = w1)"
  using assms
  by (auto simp add: main_def split: prod.splits sum.splits pyexc.splits)

text \<open>
  C9 on a run of the double whose directory creation raises, as
  \<^verbatim>\<open>os.makedirs("")\<close> does.
\<close>

theorem empty_output_dir_reaches_makedirs_witness:
  "makedirs (env_makedirs_raises ''[Errno 2] No such file or directory'') '''' True []
     = (Inl (Exc ''[Errno 2] No such file or directory''), [])
   \<and> ending (main (env_makedirs_raises ''[Errno 2] No such file or directory'')
        [''download_dataset.py'', ''''] [])
     = Uncaught (Exc ''[Errno 2] No such file or directory'')
   \<and> stderr (main (env_makedirs_raises ''[Errno 2] No such file or directory'')
        [''download_dataset.py'', ''''] []) = []
   \<and> calls (main (env_makedirs_raises ''[Errno 2] No such file or directory'')
        [''download_dataset.py'', ''''] []) = [Makedirs '''' True]"
proof -
  let ?E = "env_makedirs_raises ''[Errno 2] No such file or directory''"
  have a: "makedirs ?E '''' True [] = (Inl (Exc ''[Errno 2] No such file or directory''), [])"
    by (simp add: env_makedirs_raises_def env_double_def)
  have b: "2 \<le> length [''download_dataset.py'', '''']"
    and c: "[''download_dataset.py'', ''''] ! 1 = ''''"
    by simp_all
  show ?thesis
    using a empty_output_dir_reaches_makedirs [OF b c, of ?E "[]"]
    by blast
qed

text \<open>
  C10. When the import of the client library raises an error (\<^verbatim>\<open>ImportError\<close> is an
  instance of \<^verbatim>\<open>Exception\<close>), the handler of the transfer failures catches it: the
  process exits with code 2, standard error holds the message of the import error
  followed by a line feed, standard output stays empty, and the client is never
  called.
\<close>

theorem import_error_exit_2:
  assumes "2 \<le> length argv"
    and "makedirs E (argv ! 1) True w = (Inr x1, w1)"
    and "import_hub E w1 = (Inl (Exc m), w2)"
  shows "ending (main E argv w) = Exit 2
       \<and> stderr (main E argv w) = print_line m
       \<and> stdout (main E argv w) = []
       \<and> calls (main E argv w) = [Makedirs (argv ! 1) True, Import_hub]"
  using assms by (simp add: main_after_makedirs try_body_def)

text \<open>
  C10 on a run of the double whose import raises.
\<close>

theorem import_error_exit_2_witness:
  "ending (main (env_import_raises ''No module named huggingface_hub'')
       [''download_dataset.py'', ''/tmp/ds''] []) = Exit 2
   \<and> stderr (main (env_import_raises ''No module named huggingface_hub'')
       [''download_dataset.py'', ''/tmp/ds''] [])
     = ''No module named huggingface_hub'' @ [CHR 0x0A]
   \<and> calls (main (env_import_raises ''No module named huggingface_hub'')
       [''download_dataset.py'', ''/tmp/ds''] []) = [Makedirs ''/tmp/ds'' True, Import_hub]"
proof -
  let ?argv = "[''download_dataset.py'', ''/tmp/ds'']"
  let ?E = "env_import_raises ''No module named huggingface_hub''"
  have a: "2 \<le> length ?argv" by simp
  have b: "makedirs ?E (?argv ! 1) True [] = (Inr (), [])"
    by (simp add: env_import_raises_def env_double_def)
  have c: "import_hub ?E [] = (Inl (Exc ''No module named huggingface_hub''), [])"
    by (simp add: env_import_raises_def env_double_def)
  show ?thesis
    using import_error_exit_2 [OF a b c] by (simp add: print_line_def)
qed

end
